theory Spec2Isabelle
  imports Main "HOL-Library.Log_Nat"
begin

section \<open>The Redux setup of App.tsx\<close>

text \<open>
  The program is two reducers, a store that holds one slot per reducer, and selection
  functions (\<open>mapStateToProps...\<close>) handed to the binding library.

  Conventions of the embedding:
  \<^item> an interface is a \<^theory_text>\<open>record\<close>; the object spread \<open>{...state, f: v}\<close> is the
    record update \<open>state\<lparr>f := v\<rparr>\<close>;
  \<^item> a \<open>number\<close> field holds a double with an integer value and is an \<open>int\<close>; the
    operator \<open>+\<close> on numbers is \<open>number_add\<close>, the exact sum rounded to a double;
    \<open>number | null\<close> is \<open>int option\<close>;
  \<^item> an action is an object with a \<open>type\<close> string and, when it is a \<open>DateAction\<close>, a
    \<open>payload\<close>: the field is optional, and reading \<open>action.payload.date\<close> of an action
    without payload throws, which the model returns as \<open>Inl TypeError\<close>;
  \<^item> a parameter with a default value (\<open>state = {count: 0}\<close>) takes an \<open>option\<close>, with
    \<open>None\<close> for \<open>undefined\<close>;
  \<^item> a parameter of type \<open>any\<close> is a \<open>JSValue\<close>.
\<close>

subsection \<open>Actions\<close>

definition ADD :: string where
  "ADD = ''ADD''"

definition DATE :: string where
  "DATE = ''DATE''"

record Payload =
  date :: int

record Action =
  type :: string
  payload :: "Payload option"

subsection \<open>Reducer states\<close>

record DateState =
  date :: "int option"

record CounterState =
  count :: int

datatype error = TypeError

subsection \<open>Numbers\<close>

text \<open>
  A double has 53 significant bits. \<open>roundDouble n\<close> is the double nearest to the
  integer \<open>n\<close>, the one with the even significand when two are equally near: an
  integer of magnitude up to \<open>2 ^ 53\<close> is a double itself, a larger one loses its low
  \<open>e\<close> bits, where \<open>e\<close> is its length in bits less 53. The doubles end below
  \<open>2 ^ 1024\<close>; the sum of a double and 1 rounds to a double below that, so the model
  needs no infinity.
\<close>

definition roundDouble :: "int \<Rightarrow> int" where
  "roundDouble n =
     (let m = \<bar>n\<bar> in
      if m \<le> 2 ^ 53 then n
      else
        (let e = floorlog 2 (nat m) - 53;
             q = m div 2 ^ e;
             r = m mod 2 ^ e;
             h = 2 ^ (e - 1)
         in sgn n * (if h < r \<or> (r = h \<and> odd q) then q + 1 else q) * 2 ^ e))"

text \<open>The operator \<open>+\<close> on two numbers: the exact sum, rounded.\<close>

definition number_add :: "int \<Rightarrow> int \<Rightarrow> int" where
  "number_add x y = roundDouble (x + y)"

subsection \<open>Reducers\<close>

definition dateReducer :: "DateState option \<Rightarrow> Action \<Rightarrow> error + DateState" where
  "dateReducer state_arg action =
     (let state = (case state_arg of None \<Rightarrow> \<lparr>DateState.date = None\<rparr> | Some s \<Rightarrow> s) in
      if type action = DATE then
        (case payload action of
           None \<Rightarrow> Inl TypeError
         | Some p \<Rightarrow> Inr (state\<lparr>DateState.date := Some (Payload.date p)\<rparr>))
      else Inr state)"

definition counterReducer :: "CounterState option \<Rightarrow> Action \<Rightarrow> error + CounterState" where
  "counterReducer state_arg action =
     (let state = (case state_arg of None \<Rightarrow> \<lparr>count = 0\<rparr> | Some s \<Rightarrow> s) in
      if type action = ADD then Inr (state\<lparr>count := number_add (count state) 1\<rparr>)
      else Inr state)"

subsection \<open>Store\<close>

record RootState =
  counter :: CounterState
  dates :: DateState

text \<open>
  Modelled from the spec: \<open>configureStore\<close> belongs to the state-management library, not to
  this repository. The spec describes it as the aggregation that composes the two
  reducers under named slots: a dispatched action is handed to the reducer of each slot,
  in the order of the \<open>reducer\<close> object, and each slot is replaced by what its reducer
  returns. An exception of a reducer leaves the dispatch.
\<close>

definition reducer :: "RootState option \<Rightarrow> Action \<Rightarrow> error + RootState" where
  "reducer state action =
     (case counterReducer (map_option counter state) action of
        Inl e \<Rightarrow> Inl e
      | Inr nextCounter \<Rightarrow>
          (case dateReducer (map_option dates state) action of
             Inl e \<Rightarrow> Inl e
           | Inr nextDates \<Rightarrow> Inr \<lparr>counter = nextCounter, dates = nextDates\<rparr>))"

text \<open>
  Modelled from the spec: both slots are created once, at store initialisation, with
  their default values. The defaults are the default parameters of the reducers, so the
  initial state is what the reducers return on an undefined state and an action of a
  type that belongs to the library.
\<close>

definition INIT :: Action where
  "INIT = \<lparr>type = ''@@redux/INIT'', payload = None\<rparr>"

definition store :: "error + RootState" where
  "store = reducer None INIT"

definition dispatch :: "RootState \<Rightarrow> Action \<Rightarrow> error + RootState" where
  "dispatch state action = reducer (Some state) action"

text \<open>
  A sequence of dispatches, one action at a time. The first argument is the store so
  far: \<open>store\<close> for a run from the initial state, \<open>Inr s\<close> for a run from \<open>s\<close>. The run
  ends at the first exception.
\<close>

fun dispatchAll :: "error + RootState \<Rightarrow> Action list \<Rightarrow> error + RootState" where
  "dispatchAll st [] = st"
| "dispatchAll st (a # as) =
     dispatchAll (case st of Inl e \<Rightarrow> Inl e | Inr s \<Rightarrow> dispatch s a) as"

text \<open>
  The interface \<open>DateAction\<close>: an action of type \<open>DATE\<close> carries a payload. The actions
  that the components dispatch, \<open>{type: ADD}\<close> and
  \<open>{type: DATE, payload: {date: Date.now()}}\<close>, satisfy it.
\<close>

definition wellTyped :: "Action \<Rightarrow> bool" where
  "wellTyped a \<longleftrightarrow> (type a = DATE \<longrightarrow> payload a \<noteq> None)"

subsection \<open>Selection functions\<close>

text \<open>
  The two selection functions below take a state of type \<open>any\<close>: a value of
  JavaScript, here \<open>undefined\<close>, \<open>null\<close>, a boolean, a number, a string or an
  object, the object as the list of its properties.
\<close>

datatype JSValue =
    JSUndefined
  | JSNull
  | JSBoolean bool
  | JSNumber int
  | JSString string
  | JSObject "(string \<times> JSValue) list"

definition mapStateToPropsBreaking :: "JSValue \<Rightarrow> JSValue" where
  "mapStateToPropsBreaking state = JSObject []"

definition mapStateToPropsNonBlocking2 :: "JSValue \<Rightarrow> JSValue" where
  "mapStateToPropsNonBlocking2 state = JSObject [(''state'', state)]"

text \<open>The store's state as a value of JavaScript.\<close>

definition RootState_value :: "RootState \<Rightarrow> JSValue" where
  "RootState_value s =
     JSObject
       [(''counter'', JSObject [(''count'', JSNumber (count (counter s)))]),
        (''dates'', JSObject [(''date'',
           (case DateState.date (dates s) of None \<Rightarrow> JSNull | Some d \<Rightarrow> JSNumber d))])]"

section \<open>The addition of one\<close>

lemma number_add_exact: "\<bar>x + y\<bar> \<le> 2 ^ 53 \<Longrightarrow> number_add x y = x + y"
  by (simp add: number_add_def roundDouble_def)

text \<open>At \<open>2 ^ 53\<close> the sum \<open>2 ^ 53 + 1\<close> lies between two doubles and rounds back.\<close>

lemma number_add_limit: "number_add 9007199254740992 1 = 9007199254740992"
  by (simp add: number_add_def roundDouble_def compute_floorlog)

lemma roundDouble_nonneg: "0 \<le> n \<Longrightarrow> 0 \<le> roundDouble n"
proof -
  assume n: "0 \<le> n"
  have q: "0 \<le> \<bar>n\<bar> div 2 ^ e" for e :: nat
    by (simp add: pos_imp_zdiv_nonneg_iff)
  from n have "0 \<le> sgn n" by (simp add: sgn_if)
  then show ?thesis
    using n q [of "floorlog 2 (nat \<bar>n\<bar>) - 53"]
    by (auto simp: roundDouble_def Let_def intro!: mult_nonneg_nonneg)
qed

lemma number_add_one_nonneg: "0 \<le> x \<Longrightarrow> 0 \<le> number_add x 1"
  by (simp add: number_add_def roundDouble_nonneg)

lemma number_add_one_step:
  "- (2 ^ 53) \<le> x \<Longrightarrow> x \<le> 2 ^ 53 \<Longrightarrow>
   number_add x 1 = (if x = 2 ^ 53 then x else x + 1)"
proof (cases "x = 2 ^ 53")
  case True
  then show ?thesis using number_add_limit by simp
next
  case False
  assume "- (2 ^ 53) \<le> x" "x \<le> 2 ^ 53"
  with False have "\<bar>x + 1\<bar> \<le> 2 ^ 53" by simp
  then have "number_add x 1 = x + 1" by (rule number_add_exact)
  with False show ?thesis by simp
qed

lemma number_add_one_saturates:
  "0 \<le> x \<Longrightarrow> x \<le> 2 ^ 53 \<Longrightarrow> number_add x 1 = min (x + 1) (2 ^ 53)"
  using number_add_one_step [of x] by (simp add: min_def)

section \<open>The reducers on a defined state, and one dispatch\<close>

lemma type_distinct: "ADD \<noteq> DATE"
  by (simp add: ADD_def DATE_def)

lemma counterReducer_Some:
  "counterReducer (Some s) a =
     Inr (if type a = ADD then s\<lparr>count := number_add (count s) 1\<rparr> else s)"
  by (simp add: counterReducer_def)

lemma dateReducer_Some:
  "dateReducer (Some s) a =
     (if type a = DATE
      then (case payload a of
              None \<Rightarrow> Inl TypeError
            | Some p \<Rightarrow> Inr (s\<lparr>DateState.date := Some (Payload.date p)\<rparr>))
      else Inr s)"
  by (simp add: dateReducer_def)

text \<open>The one exception of the program: a \<open>DATE\<close> action without payload.\<close>

lemma dateReducer_no_payload:
  "type a = DATE \<Longrightarrow> payload a = None \<Longrightarrow> dateReducer st a = Inl TypeError"
  by (simp add: dateReducer_def)

lemma dispatch_unfold:
  "dispatch s a =
     (case dateReducer (Some (dates s)) a of
        Inl e \<Rightarrow> Inl e
      | Inr d \<Rightarrow>
          Inr \<lparr>counter = (if type a = ADD
                          then (counter s)\<lparr>count := number_add (count (counter s)) 1\<rparr>
                          else counter s),
               dates = d\<rparr>)"
  by (simp add: dispatch_def reducer_def counterReducer_Some)

lemma store_state:
  "store = Inr \<lparr>counter = \<lparr>count = 0\<rparr>, dates = \<lparr>DateState.date = None\<rparr>\<rparr>"
  by (simp add: store_def reducer_def counterReducer_def dateReducer_def INIT_def
        ADD_def DATE_def)

lemma dispatch_counter:
  "dispatch s a = Inr s' \<Longrightarrow>
   counter s' = (if type a = ADD
                 then (counter s)\<lparr>count := number_add (count (counter s)) 1\<rparr>
                 else counter s)"
  by (auto simp: dispatch_unfold split: sum.splits)

lemma dispatch_dates:
  "dispatch s a = Inr s' \<Longrightarrow>
   dates s' = (if type a = DATE
               then (dates s)\<lparr>DateState.date := map_option Payload.date (payload a)\<rparr>
               else dates s)"
  by (auto simp: dispatch_unfold dateReducer_Some split: sum.splits if_splits option.splits)

lemma dispatch_wellTyped:
  "wellTyped a \<Longrightarrow> \<exists>s'. dispatch s a = Inr s'"
  by (auto simp: wellTyped_def dispatch_unfold dateReducer_Some split: option.splits)

section \<open>Sequences of dispatches\<close>

lemma dispatchAll_Inl: "dispatchAll (Inl e) as = Inl e"
  by (induction as) simp_all

lemma dispatchAll_count:
  "list_all wellTyped as \<Longrightarrow> 0 \<le> count (counter s) \<Longrightarrow> count (counter s) \<le> 2 ^ 53 \<Longrightarrow>
   \<exists>s'. dispatchAll (Inr s) as = Inr s' \<and>
        count (counter s') =
          min (count (counter s) + int (length (filter (\<lambda>a. type a = ADD) as))) (2 ^ 53)"
proof (induction as arbitrary: s)
  case Nil
  then show ?case by simp
next
  case (Cons a as)
  from Cons.prems have wa: "wellTyped a" and was: "list_all wellTyped as" by simp_all
  from dispatch_wellTyped [OF wa] obtain s1 where s1: "dispatch s a = Inr s1" by blast
  have c1: "count (counter s1) =
              (if type a = ADD then min (count (counter s) + 1) (2 ^ 53) else count (counter s))"
    using dispatch_counter [OF s1] Cons.prems(2,3)
    by (simp add: number_add_one_saturates)
  with Cons.prems(2,3) have b1: "0 \<le> count (counter s1)" "count (counter s1) \<le> 2 ^ 53"
    by (simp_all add: min_def)
  from Cons.IH [OF was b1] obtain s' where
    r: "dispatchAll (Inr s1) as = Inr s'" and
    c: "count (counter s') =
          min (count (counter s1) + int (length (filter (\<lambda>a. type a = ADD) as))) (2 ^ 53)"
    by blast
  from c c1 have "count (counter s') =
      min (count (counter s) + int (length (filter (\<lambda>a. type a = ADD) (a # as)))) (2 ^ 53)"
    by (simp add: min_def)
  with r s1 show ?case by simp
qed

lemma dispatchAll_date:
  "list_all wellTyped as \<Longrightarrow>
   \<exists>s'. dispatchAll (Inr s) as = Inr s' \<and>
        DateState.date (dates s') =
          (if filter (\<lambda>a. type a = DATE) as = [] then DateState.date (dates s)
           else map_option Payload.date (payload (last (filter (\<lambda>a. type a = DATE) as))))"
proof (induction as arbitrary: s)
  case Nil
  then show ?case by simp
next
  case (Cons a as)
  from Cons.prems have wa: "wellTyped a" and was: "list_all wellTyped as" by simp_all
  from dispatch_wellTyped [OF wa] obtain s1 where s1: "dispatch s a = Inr s1" by blast
  from Cons.IH [OF was, of s1] obtain s' where
    "dispatchAll (Inr s1) as = Inr s'"
    "DateState.date (dates s') =
          (if filter (\<lambda>a. type a = DATE) as = [] then DateState.date (dates s1)
           else map_option Payload.date (payload (last (filter (\<lambda>a. type a = DATE) as))))"
    by blast
  with s1 dispatch_dates [OF s1] show ?case by simp
qed

lemma dispatchAll_bounds:
  "dispatchAll (Inr s) as = Inr s' \<Longrightarrow> 0 \<le> count (counter s) \<Longrightarrow> count (counter s) \<le> 2 ^ 53 \<Longrightarrow>
   0 \<le> count (counter s') \<and> count (counter s') \<le> 2 ^ 53"
proof (induction as arbitrary: s)
  case Nil
  then show ?case by simp
next
  case (Cons a as)
  show ?case
  proof (cases "dispatch s a")
    case (Inl e)
    with Cons.prems(1) show ?thesis by (simp add: dispatchAll_Inl)
  next
    case (Inr s1)
    from Cons.prems(1) Inr have r: "dispatchAll (Inr s1) as = Inr s'" by simp
    from dispatch_counter [OF Inr] Cons.prems(2,3)
    have "0 \<le> count (counter s1)" and "count (counter s1) \<le> 2 ^ 53"
      by (simp_all add: number_add_one_saturates split: if_splits)
    with r show ?thesis by (rule Cons.IH)
  qed
qed

text \<open>A run of increments only, from a state whose count is between 0 and \<open>2 ^ 53\<close>.\<close>

lemma dispatchAll_replicate_ADD:
  "0 \<le> count (counter s) \<Longrightarrow> count (counter s) \<le> 2 ^ 53 \<Longrightarrow>
   dispatchAll (Inr s) (replicate n \<lparr>type = ADD, payload = None\<rparr>) =
     Inr \<lparr>counter = (counter s)\<lparr>count := min (count (counter s) + int n) (2 ^ 53)\<rparr>,
          dates = dates s\<rparr>"
proof (induction n arbitrary: s)
  case 0
  then show ?case by simp
next
  case (Suc n)
  let ?s1 = "\<lparr>counter = (counter s)\<lparr>count := min (count (counter s) + 1) (2 ^ 53)\<rparr>,
              dates = dates s\<rparr>"
  have d: "dispatch s \<lparr>type = ADD, payload = None\<rparr> = Inr ?s1"
    using type_distinct Suc.prems
    by (simp add: dispatch_unfold dateReducer_Some number_add_one_saturates)
  from Suc.prems have "0 \<le> count (counter ?s1)" and "count (counter ?s1) \<le> 2 ^ 53"
    by simp_all
  from Suc.IH [OF this] d show ?case
    by (simp add: min_def)
qed

section \<open>The reducers' contracts\<close>

text \<open>
  Claim C1, as stated: for every counter state \<open>s\<close> and every action of type \<open>ADD\<close>,
  the counter reducer returns a state with the count \<open>count s + 1\<close>. Not at every
  state: \<open>state.count + 1\<close> is an addition of doubles. At the count
  \<open>2 ^ 53 = 9007199254740992\<close> the sum is no double and rounds back, so the reducer
  returns the count it was given.
\<close>

theorem counterReducer_count_limit:
  "counterReducer (Some \<lparr>count = 9007199254740992\<rparr>) \<lparr>type = ADD, payload = None\<rparr> =
     Inr \<lparr>count = 9007199254740992\<rparr> \<and>
   counterReducer (Some \<lparr>count = 9007199254740992\<rparr>) \<lparr>type = ADD, payload = None\<rparr> \<noteq>
     Inr \<lparr>count = 9007199254740992 + 1\<rparr>"
  by (simp add: counterReducer_Some number_add_limit)

text \<open>
  Claim C1, amended: for every counter state \<open>s\<close> whose count is at least \<open>- (2 ^ 53)\<close>
  and less than \<open>2 ^ 53\<close>, and every action \<open>a\<close>, the counter reducer returns \<open>s\<close>
  with \<open>count\<close> replaced by \<open>count s + 1\<close> when the type of \<open>a\<close> is \<open>ADD\<close>. For
  every state it returns \<open>s\<close> itself for every other type, recognised or not. It never
  fails: whatever the state argument (also \<open>undefined\<close>) and the action, it returns a
  state.
\<close>

theorem counterReducer_contract:
  "(type a = ADD \<and> - (2 ^ 53) \<le> count s \<and> count s < 2 ^ 53 \<longrightarrow>
      counterReducer (Some s) a = Inr (s\<lparr>count := count s + 1\<rparr>)) \<and>
   (type a \<noteq> ADD \<longrightarrow> counterReducer (Some s) a = Inr s) \<and>
   (\<exists>s'. counterReducer st a = Inr s')"
proof (intro conjI impI)
  assume h: "type a = ADD \<and> - (2 ^ 53) \<le> count s \<and> count s < 2 ^ 53"
  then have "number_add (count s) 1 = count s + 1"
    using number_add_one_step [of "count s"] by simp
  with h show "counterReducer (Some s) a = Inr (s\<lparr>count := count s + 1\<rparr>)"
    by (simp add: counterReducer_Some)
next
  assume "type a \<noteq> ADD"
  then show "counterReducer (Some s) a = Inr s"
    by (simp add: counterReducer_Some)
next
  show "\<exists>s'. counterReducer st a = Inr s'"
    by (simp add: counterReducer_def Let_def)
qed

theorem counterReducer_contract_witness:
  "counterReducer (Some \<lparr>count = 41\<rparr>) \<lparr>type = ''ADD'', payload = None\<rparr> = Inr \<lparr>count = 42\<rparr> \<and>
   counterReducer (Some \<lparr>count = 41\<rparr>)
     \<lparr>type = ''@@redux/INIT'', payload = None\<rparr> = Inr \<lparr>count = 41\<rparr>"
  using counterReducer_contract
          [of "\<lparr>type = ''ADD'', payload = None\<rparr>" "\<lparr>count = 41\<rparr>"]
        counterReducer_contract
          [of "\<lparr>type = ''@@redux/INIT'', payload = None\<rparr>" "\<lparr>count = 41\<rparr>"]
  by (simp add: ADD_def)

text \<open>
  Claim C2. For every date state \<open>s\<close> and every action \<open>a\<close>, the date reducer returns
  \<open>s\<close> with \<open>date\<close> replaced by the date of the payload of \<open>a\<close> when the type of \<open>a\<close>
  is \<open>DATE\<close>, and returns \<open>s\<close> itself for every other type. The payload's date is
  stored as it is, whatever its value: nothing is checked.
\<close>

theorem dateReducer_contract:
  "(type a = DATE \<and> payload a = Some p \<longrightarrow>
      dateReducer (Some s) a = Inr (s\<lparr>DateState.date := Some (Payload.date p)\<rparr>)) \<and>
   (type a \<noteq> DATE \<longrightarrow> dateReducer (Some s) a = Inr s)"
  by (simp add: dateReducer_def)

theorem dateReducer_contract_witness:
  "dateReducer (Some \<lparr>DateState.date = Some 7\<rparr>)
     \<lparr>type = ''DATE'', payload = Some \<lparr>Payload.date = - 5\<rparr>\<rparr> = Inr \<lparr>DateState.date = Some (- 5)\<rparr> \<and>
   dateReducer (Some \<lparr>DateState.date = Some 7\<rparr>)
     \<lparr>type = ''ADD'', payload = None\<rparr> = Inr \<lparr>DateState.date = Some 7\<rparr>"
  using dateReducer_contract
          [of "\<lparr>type = ''DATE'', payload = Some \<lparr>Payload.date = - 5\<rparr>\<rparr>" "\<lparr>Payload.date = - 5\<rparr>"
              "\<lparr>DateState.date = Some 7\<rparr>"]
        dateReducer_contract
          [of "\<lparr>type = ''ADD'', payload = None\<rparr>" _ "\<lparr>DateState.date = Some 7\<rparr>"]
  by (simp add: DATE_def)

section \<open>The store\<close>

text \<open>
  Claim C3, as stated: for every sequence of actions dispatched from the initial state,
  the count is the number of \<open>ADD\<close> actions of the sequence. Not for every sequence:
  the count is a double and stops at \<open>2 ^ 53\<close>. After
  \<open>2 ^ 53 + 1 = 9007199254740993\<close> increments from the initial state the count is
  \<open>9007199254740992\<close>.
\<close>

theorem count_stops_at_limit:
  "dispatchAll store (replicate 9007199254740993 \<lparr>type = ADD, payload = None\<rparr>) =
     Inr \<lparr>counter = \<lparr>count = 9007199254740992\<rparr>, dates = \<lparr>DateState.date = None\<rparr>\<rparr> \<and>
   int (length (filter (\<lambda>a. type a = ADD)
          (replicate 9007199254740993 \<lparr>type = ADD, payload = None\<rparr>))) =
     9007199254740993"
  using dispatchAll_replicate_ADD
          [of "\<lparr>counter = \<lparr>count = 0\<rparr>, dates = \<lparr>DateState.date = None\<rparr>\<rparr>"
              "9007199254740993"]
  by (simp add: store_state filter_replicate)

text \<open>
  Claim C3, amended: for every sequence of actions dispatched from the initial state of
  the store, each action as its interface declares it, with at most \<open>2 ^ 53\<close> actions
  of type \<open>ADD\<close>, the run returns a state whose \<open>count\<close> is the number of \<open>ADD\<close>
  actions of the sequence, whatever other actions stand between them. Three increments
  from the initial state give \<open>count = 3\<close> and a date that is still \<open>null\<close>.
\<close>

theorem count_is_number_of_increments:
  "(list_all wellTyped as \<and> int (length (filter (\<lambda>a. type a = ADD) as)) \<le> 2 ^ 53 \<longrightarrow>
      (\<exists>s'. dispatchAll store as = Inr s' \<and>
            count (counter s') = int (length (filter (\<lambda>a. type a = ADD) as)))) \<and>
   dispatchAll store
     [\<lparr>type = ADD, payload = None\<rparr>, \<lparr>type = ADD, payload = None\<rparr>,
      \<lparr>type = ADD, payload = None\<rparr>] =
     Inr \<lparr>counter = \<lparr>count = 3\<rparr>, dates = \<lparr>DateState.date = None\<rparr>\<rparr>"
proof
  show "list_all wellTyped as \<and> int (length (filter (\<lambda>a. type a = ADD) as)) \<le> 2 ^ 53 \<longrightarrow>
      (\<exists>s'. dispatchAll store as = Inr s' \<and>
            count (counter s') = int (length (filter (\<lambda>a. type a = ADD) as)))"
    using dispatchAll_count
            [of as "\<lparr>counter = \<lparr>count = 0\<rparr>, dates = \<lparr>DateState.date = None\<rparr>\<rparr>"]
    by (auto simp: store_state min_def)
next
  show "dispatchAll store
     [\<lparr>type = ADD, payload = None\<rparr>, \<lparr>type = ADD, payload = None\<rparr>,
      \<lparr>type = ADD, payload = None\<rparr>] =
     Inr \<lparr>counter = \<lparr>count = 3\<rparr>, dates = \<lparr>DateState.date = None\<rparr>\<rparr>"
    using type_distinct
    by (simp add: store_state dispatch_unfold dateReducer_Some number_add_exact)
qed

theorem count_is_number_of_increments_witness:
  "list_all wellTyped
     [\<lparr>type = ''ADD'', payload = None\<rparr>,
      \<lparr>type = ''DATE'', payload = Some \<lparr>Payload.date = 5\<rparr>\<rparr>,
      \<lparr>type = ''NOOP'', payload = None\<rparr>,
      \<lparr>type = ''ADD'', payload = None\<rparr>] \<and>
   (\<exists>s'. dispatchAll store
           [\<lparr>type = ''ADD'', payload = None\<rparr>,
            \<lparr>type = ''DATE'', payload = Some \<lparr>Payload.date = 5\<rparr>\<rparr>,
            \<lparr>type = ''NOOP'', payload = None\<rparr>,
            \<lparr>type = ''ADD'', payload = None\<rparr>] = Inr s' \<and>
         count (counter s') = 2)"
  using count_is_number_of_increments
          [of "[\<lparr>type = ''ADD'', payload = None\<rparr>,
                \<lparr>type = ''DATE'', payload = Some \<lparr>Payload.date = 5\<rparr>\<rparr>,
                \<lparr>type = ''NOOP'', payload = None\<rparr>,
                \<lparr>type = ''ADD'', payload = None\<rparr>]"]
  by (simp add: wellTyped_def ADD_def DATE_def)

text \<open>
  Claim C4. For every sequence of dispatched actions with at least one \<open>DATE\<close> action,
  each action as its interface declares it, the run from any state returns a state whose
  date is the payload date of the last \<open>DATE\<close> action of the sequence. An \<open>ADD\<close> action
  leaves the date slot as it was. Dispatching \<open>DATE\<close> with the value 1700000000000
  leaves the date slot at exactly 1700000000000.
\<close>

theorem date_is_latest_payload:
  "(list_all wellTyped as \<and> (\<exists>d \<in> set as. type d = DATE) \<longrightarrow>
      (\<exists>s' p. dispatchAll (Inr s) as = Inr s' \<and>
              payload (last (filter (\<lambda>a. type a = DATE) as)) = Some p \<and>
              DateState.date (dates s') = Some (Payload.date p))) \<and>
   (type a = ADD \<longrightarrow> (\<exists>s'. dispatch s a = Inr s' \<and> dates s' = dates s)) \<and>
   (\<exists>s'. dispatch s \<lparr>type = DATE, payload = Some \<lparr>Payload.date = 1700000000000\<rparr>\<rparr> = Inr s' \<and>
         DateState.date (dates s') = Some 1700000000000)"
proof (intro conjI impI)
  assume h: "list_all wellTyped as \<and> (\<exists>d \<in> set as. type d = DATE)"
  let ?ds = "filter (\<lambda>a. type a = DATE) as"
  from h have ne: "?ds \<noteq> []" by (auto simp: filter_empty_conv)
  then have "last ?ds \<in> set ?ds" by (rule last_in_set)
  then have "last ?ds \<in> set as" and "type (last ?ds) = DATE" by simp_all
  with h have "payload (last ?ds) \<noteq> None"
    by (auto simp: list_all_iff wellTyped_def)
  then obtain p where p: "payload (last ?ds) = Some p" by blast
  from h dispatchAll_date [of as s] obtain s' where
    "dispatchAll (Inr s) as = Inr s'"
    "DateState.date (dates s') = map_option Payload.date (payload (last ?ds))"
    using ne by auto
  with p show "\<exists>s' p. dispatchAll (Inr s) as = Inr s' \<and> payload (last ?ds) = Some p \<and>
              DateState.date (dates s') = Some (Payload.date p)"
    by simp
next
  assume "type a = ADD"
  then show "\<exists>s'. dispatch s a = Inr s' \<and> dates s' = dates s"
    using type_distinct by (simp add: dispatch_unfold dateReducer_Some)
next
  show "\<exists>s'. dispatch s \<lparr>type = DATE, payload = Some \<lparr>Payload.date = 1700000000000\<rparr>\<rparr> = Inr s' \<and>
         DateState.date (dates s') = Some 1700000000000"
    by (simp add: dispatch_unfold dateReducer_Some)
qed

theorem date_is_latest_payload_witness:
  "list_all wellTyped
     [\<lparr>type = ''DATE'', payload = Some \<lparr>Payload.date = 1\<rparr>\<rparr>,
      \<lparr>type = ''ADD'', payload = None\<rparr>,
      \<lparr>type = ''DATE'', payload = Some \<lparr>Payload.date = 2\<rparr>\<rparr>,
      \<lparr>type = ''ADD'', payload = None\<rparr>] \<and>
   (\<exists>s'. dispatchAll (Inr \<lparr>counter = \<lparr>count = 0\<rparr>, dates = \<lparr>DateState.date = None\<rparr>\<rparr>)
           [\<lparr>type = ''DATE'', payload = Some \<lparr>Payload.date = 1\<rparr>\<rparr>,
            \<lparr>type = ''ADD'', payload = None\<rparr>,
            \<lparr>type = ''DATE'', payload = Some \<lparr>Payload.date = 2\<rparr>\<rparr>,
            \<lparr>type = ''ADD'', payload = None\<rparr>] = Inr s' \<and>
         DateState.date (dates s') = Some 2) \<and>
   (\<exists>s'. dispatch \<lparr>counter = \<lparr>count = 0\<rparr>, dates = \<lparr>DateState.date = None\<rparr>\<rparr>
           \<lparr>type = ''ADD'', payload = None\<rparr> = Inr s' \<and>
         dates s' = \<lparr>DateState.date = None\<rparr>)"
  using date_is_latest_payload
          [of "[\<lparr>type = ''DATE'', payload = Some \<lparr>Payload.date = 1\<rparr>\<rparr>,
                \<lparr>type = ''ADD'', payload = None\<rparr>,
                \<lparr>type = ''DATE'', payload = Some \<lparr>Payload.date = 2\<rparr>\<rparr>,
                \<lparr>type = ''ADD'', payload = None\<rparr>]"
              "\<lparr>counter = \<lparr>count = 0\<rparr>, dates = \<lparr>DateState.date = None\<rparr>\<rparr>"
              "\<lparr>type = ''ADD'', payload = None\<rparr>"]
  by (auto simp: wellTyped_def ADD_def DATE_def)

text \<open>
  Claim C5. For every state of the store and every action whose type is neither \<open>ADD\<close>
  nor \<open>DATE\<close>, the dispatch returns the state it started from: both slots keep their
  values.
\<close>

theorem unrecognized_action_identity:
  "type a \<noteq> ADD \<and> type a \<noteq> DATE \<longrightarrow> dispatch s a = Inr s"
  by (simp add: dispatch_unfold dateReducer_Some)

theorem unrecognized_action_identity_witness:
  "dispatch \<lparr>counter = \<lparr>count = 4\<rparr>, dates = \<lparr>DateState.date = Some 9\<rparr>\<rparr>
     \<lparr>type = ''NOOP'', payload = None\<rparr> =
   Inr \<lparr>counter = \<lparr>count = 4\<rparr>, dates = \<lparr>DateState.date = Some 9\<rparr>\<rparr>"
  using unrecognized_action_identity
          [of "\<lparr>type = ''NOOP'', payload = None\<rparr>"
              "\<lparr>counter = \<lparr>count = 4\<rparr>, dates = \<lparr>DateState.date = Some 9\<rparr>\<rparr>"]
  by (simp add: ADD_def DATE_def)

text \<open>
  Claim C6. The count of the counter slot is a non-negative integer in every state the
  store can reach: the initial state has \<open>count = 0\<close>; a dispatch that returns, from a
  count of magnitude up to \<open>2 ^ 53\<close>, has either added one to the count or left it
  as it was; a dispatch from a state with \<open>0 \<le> count\<close> returns a state with
  \<open>0 \<le> count\<close>; and every run from the initial state returns a state with
  \<open>0 \<le> count\<close> and \<open>count \<le> 2 ^ 53\<close>.
\<close>

theorem count_nonneg_invariant:
  "(\<exists>s0. store = Inr s0 \<and> count (counter s0) = 0) \<and>
   (- (2 ^ 53) \<le> count (counter s) \<and> count (counter s) \<le> 2 ^ 53 \<and>
    dispatch s a = Inr s' \<longrightarrow>
      count (counter s') = count (counter s) + 1 \<or> count (counter s') = count (counter s)) \<and>
   (0 \<le> count (counter s) \<and> dispatch s a = Inr s' \<longrightarrow> 0 \<le> count (counter s')) \<and>
   (dispatchAll store as = Inr r \<longrightarrow> 0 \<le> count (counter r) \<and> count (counter r) \<le> 2 ^ 53)"
proof -
  have init: "\<exists>s0. store = Inr s0 \<and> count (counter s0) = 0"
    by (simp add: store_state)
  have step: "count (counter s') = count (counter s) + 1 \<or> count (counter s') = count (counter s)"
    if h: "- (2 ^ 53) \<le> count (counter s) \<and> count (counter s) \<le> 2 ^ 53 \<and>
           dispatch s a = Inr s'"
  proof -
    from h have d: "dispatch s a = Inr s'" by simp
    from h have "number_add (count (counter s)) 1 =
                   (if count (counter s) = 2 ^ 53 then count (counter s)
                    else count (counter s) + 1)"
      using number_add_one_step [of "count (counter s)"] by simp
    with dispatch_counter [OF d] show ?thesis
      by (simp split: if_splits)
  qed
  have keep: "0 \<le> count (counter s')"
    if h: "0 \<le> count (counter s) \<and> dispatch s a = Inr s'"
  proof -
    from h have "0 \<le> count (counter s)" and d: "dispatch s a = Inr s'" by simp_all
    with dispatch_counter [OF d] show ?thesis
      by (simp add: number_add_one_nonneg split: if_splits)
  qed
  have run: "0 \<le> count (counter r) \<and> count (counter r) \<le> 2 ^ 53"
    if h: "dispatchAll store as = Inr r"
  proof -
    from h have
      "dispatchAll (Inr \<lparr>counter = \<lparr>count = 0\<rparr>, dates = \<lparr>DateState.date = None\<rparr>\<rparr>) as = Inr r"
      by (simp add: store_state)
    from dispatchAll_bounds [OF this] show ?thesis by simp
  qed
  from init step keep run show ?thesis by blast
qed

theorem count_nonneg_invariant_witness:
  "dispatch \<lparr>counter = \<lparr>count = 4\<rparr>, dates = \<lparr>DateState.date = None\<rparr>\<rparr>
     \<lparr>type = ''ADD'', payload = None\<rparr> =
     Inr \<lparr>counter = \<lparr>count = 5\<rparr>, dates = \<lparr>DateState.date = None\<rparr>\<rparr> \<and>
   dispatchAll store
     [\<lparr>type = ''ADD'', payload = None\<rparr>,
      \<lparr>type = ''DATE'', payload = Some \<lparr>Payload.date = 8\<rparr>\<rparr>] =
     Inr \<lparr>counter = \<lparr>count = 1\<rparr>, dates = \<lparr>DateState.date = Some 8\<rparr>\<rparr> \<and>
   (0::int) \<le> count (counter \<lparr>counter = \<lparr>count = 5\<rparr>, dates = \<lparr>DateState.date = None\<rparr>\<rparr>) \<and>
   (0::int) \<le> count (counter \<lparr>counter = \<lparr>count = 1\<rparr>, dates = \<lparr>DateState.date = Some 8\<rparr>\<rparr>)"
  using count_nonneg_invariant
          [of "\<lparr>counter = \<lparr>count = 4\<rparr>, dates = \<lparr>DateState.date = None\<rparr>\<rparr>"
              "\<lparr>type = ''ADD'', payload = None\<rparr>"
              "\<lparr>counter = \<lparr>count = 5\<rparr>, dates = \<lparr>DateState.date = None\<rparr>\<rparr>"
              "[\<lparr>type = ''ADD'', payload = None\<rparr>,
                \<lparr>type = ''DATE'', payload = Some \<lparr>Payload.date = 8\<rparr>\<rparr>]"
              "\<lparr>counter = \<lparr>count = 1\<rparr>, dates = \<lparr>DateState.date = Some 8\<rparr>\<rparr>"]
  by (simp add: store_state dispatch_unfold dateReducer_Some number_add_exact ADD_def DATE_def)

text \<open>
  Claim C9. For every state of the store, a \<open>DATE\<close> action leaves the counter slot as it
  was: the counter reducer returns its state on the type \<open>DATE\<close>, and the dispatch of a
  \<open>DATE\<close> action with its payload returns a state with the same counter slot.
\<close>

theorem set_date_keeps_counter:
  "(type d = DATE \<longrightarrow> counterReducer (Some c) d = Inr c) \<and>
   (type d = DATE \<and> payload d = Some p \<longrightarrow>
      (\<exists>s'. dispatch s d = Inr s' \<and> counter s' = counter s))"
  using type_distinct by (auto simp: counterReducer_Some dispatch_unfold dateReducer_Some)

theorem set_date_keeps_counter_witness:
  "counterReducer (Some \<lparr>count = 4\<rparr>)
     \<lparr>type = ''DATE'', payload = Some \<lparr>Payload.date = 8\<rparr>\<rparr> = Inr \<lparr>count = 4\<rparr> \<and>
   (\<exists>s'. dispatch \<lparr>counter = \<lparr>count = 4\<rparr>, dates = \<lparr>DateState.date = None\<rparr>\<rparr>
           \<lparr>type = ''DATE'', payload = Some \<lparr>Payload.date = 8\<rparr>\<rparr> = Inr s' \<and>
         counter s' = \<lparr>count = 4\<rparr>)"
  using set_date_keeps_counter
          [of "\<lparr>type = ''DATE'', payload = Some \<lparr>Payload.date = 8\<rparr>\<rparr>" "\<lparr>count = 4\<rparr>"
              "\<lparr>Payload.date = 8\<rparr>"
              "\<lparr>counter = \<lparr>count = 4\<rparr>, dates = \<lparr>DateState.date = None\<rparr>\<rparr>"]
  by (simp add: DATE_def)

text \<open>
  Claim C10. Increment and set-date commute on the state of the store: for every state
  \<open>s\<close>, every \<open>ADD\<close> action \<open>a\<close> and every \<open>DATE\<close> action \<open>d\<close> with its payload,
  dispatching \<open>a\<close> then \<open>d\<close> from \<open>s\<close> returns the state that dispatching \<open>d\<close> then
  \<open>a\<close> returns.
\<close>

theorem increment_set_date_commute:
  "type a = ADD \<and> type d = DATE \<and> payload d = Some p \<longrightarrow>
     dispatchAll (Inr s) [a, d] = dispatchAll (Inr s) [d, a] \<and>
     (\<exists>s'. dispatchAll (Inr s) [a, d] = Inr s')"
  using type_distinct by (auto simp: dispatch_unfold dateReducer_Some)

theorem increment_set_date_commute_witness:
  "dispatchAll (Inr \<lparr>counter = \<lparr>count = 4\<rparr>, dates = \<lparr>DateState.date = None\<rparr>\<rparr>)
     [\<lparr>type = ''ADD'', payload = None\<rparr>,
      \<lparr>type = ''DATE'', payload = Some \<lparr>Payload.date = 8\<rparr>\<rparr>] =
   dispatchAll (Inr \<lparr>counter = \<lparr>count = 4\<rparr>, dates = \<lparr>DateState.date = None\<rparr>\<rparr>)
     [\<lparr>type = ''DATE'', payload = Some \<lparr>Payload.date = 8\<rparr>\<rparr>,
      \<lparr>type = ''ADD'', payload = None\<rparr>] \<and>
   (\<exists>s'. dispatchAll (Inr \<lparr>counter = \<lparr>count = 4\<rparr>, dates = \<lparr>DateState.date = None\<rparr>\<rparr>)
           [\<lparr>type = ''ADD'', payload = None\<rparr>,
            \<lparr>type = ''DATE'', payload = Some \<lparr>Payload.date = 8\<rparr>\<rparr>] = Inr s')"
proof -
  have "type \<lparr>type = ''ADD'', payload = None\<rparr> = ADD \<and>
        type \<lparr>type = ''DATE'', payload = Some \<lparr>Payload.date = 8\<rparr>\<rparr> = DATE \<and>
        payload \<lparr>type = ''DATE'', payload = Some \<lparr>Payload.date = 8\<rparr>\<rparr> =
          Some \<lparr>Payload.date = 8\<rparr>"
    by (simp add: ADD_def DATE_def)
  then show ?thesis
    by (rule increment_set_date_commute
          [of "\<lparr>type = ''ADD'', payload = None\<rparr>"
              "\<lparr>type = ''DATE'', payload = Some \<lparr>Payload.date = 8\<rparr>\<rparr>"
              "\<lparr>Payload.date = 8\<rparr>"
              "\<lparr>counter = \<lparr>count = 4\<rparr>, dates = \<lparr>DateState.date = None\<rparr>\<rparr>",
           THEN mp])
qed

section \<open>The selection functions\<close>

text \<open>
  Claim C7. \<open>mapStateToPropsBreaking\<close> returns the empty object for every state: its
  result is the same for any two states, whatever their shape and contents.
\<close>

theorem mapStateToPropsBreaking_empty:
  "mapStateToPropsBreaking s = JSObject [] \<and>
   mapStateToPropsBreaking s = mapStateToPropsBreaking s'"
  by (simp add: mapStateToPropsBreaking_def)

text \<open>
  Claim C8, as stated: for every state \<open>s\<close>, the view that
  \<open>mapStateToPropsNonBlocking2\<close> returns is \<open>s\<close> itself. It is not: the function
  returns \<open>{state}\<close>, an object that holds \<open>s\<close> under the property \<open>state\<close>. At the
  initial state of the store the view is
  \<open>{state: {counter: {count: 0}, dates: {date: null}}}\<close>, which has one property,
  where the state has two.
\<close>

theorem mapStateToPropsNonBlocking2_not_identity:
  "mapStateToPropsNonBlocking2
     (RootState_value \<lparr>counter = \<lparr>count = 0\<rparr>, dates = \<lparr>DateState.date = None\<rparr>\<rparr>) \<noteq>
   RootState_value \<lparr>counter = \<lparr>count = 0\<rparr>, dates = \<lparr>DateState.date = None\<rparr>\<rparr>"
  by (simp add: mapStateToPropsNonBlocking2_def RootState_value_def)

text \<open>
  Claim C8, amended: for every state \<open>s\<close>, the view that
  \<open>mapStateToPropsNonBlocking2\<close> returns is the object whose one property, \<open>state\<close>,
  is \<open>s\<close> itself: the whole state, unmodified.
\<close>

theorem mapStateToPropsNonBlocking2_wraps_state:
  "mapStateToPropsNonBlocking2 s = JSObject [(''state'', s)]"
  by (simp add: mapStateToPropsNonBlocking2_def)

end
